theory Spec2Isabelle
  imports Main
begin

section \<open>The container of task1.cpp\<close>

text \<open>
  The class \<^verbatim>\<open>HashMap<KeyType, ValueType, Hash>\<close> keeps its entries in a
  \<^verbatim>\<open>std::list\<close> (\<^verbatim>\<open>elemets_\<close>) and finds them through an open-addressing table
  (\<^verbatim>\<open>data_\<close>) whose slots hold iterators into that list.

  A list iterator is the identity of a list node. The model gives every node an
  address (a natural number) when \<^verbatim>\<open>emplace_back\<close> creates it; the list is the
  sequence of its nodes, each with its address, and a slot stores an address.
  Addresses are handed out by a counter (\<open>fresh_f\<close>) and never used twice, so a node
  created later never aliases an earlier one.

  \<^verbatim>\<open>size_t\<close> values are modelled by \<open>nat\<close>: the counters only count nodes that
  exist in memory, and \<^verbatim>\<open>size_--\<close> runs only after the test \<^verbatim>\<open>size_ == 0\<close> has failed.

  Isabelle admits no name that ends in an underscore: the members \<^verbatim>\<open>hasher_\<close>,
  \<^verbatim>\<open>data_\<close>, \<^verbatim>\<open>size_\<close> and \<^verbatim>\<open>elemets_\<close> are the fields \<open>hasher_f\<close>, \<open>data_f\<close>,
  \<open>size_f\<close> and \<open>elemets_f\<close>, and the methods \<^verbatim>\<open>reserve_\<close>, \<^verbatim>\<open>rebuild_\<close>, \<^verbatim>\<open>next_\<close>,
  \<^verbatim>\<open>size\<close>, \<^verbatim>\<open>empty\<close>, \<^verbatim>\<open>find\<close> and \<^verbatim>\<open>insert\<close> carry the suffix \<open>_m\<close>.

  Every operation returns an \<open>option\<close>: \<open>None\<close> stands for a call that has no
  result, because a loop does not end, because \<^verbatim>\<open>hasher_(key) % data_.size()\<close> is
  evaluated with an empty vector, or because an iterator that refers to no node
  of the list is dereferenced.
\<close>

subsection \<open>Data\<close>

record HashTableData =
  is_empty :: bool
  distance :: nat
  iterator :: nat

record ('k, 'v) HashMap =
  hasher_f :: "'k \<Rightarrow> nat"
  data_f :: "HashTableData list"
  size_f :: nat
  elemets_f :: "(nat \<times> 'k \<times> 'v) list"
  fresh_f :: nat

datatype list_iterator = Node nat | End

datatype error = out_of_range

definition REBUILD_CONSTANT :: nat where "REBUILD_CONSTANT = 3"
definition EXTENDED_CONSTANT :: nat where "EXTENDED_CONSTANT = 2"
definition EXTENDED_SHIFT :: nat where "EXTENDED_SHIFT = 3"

text \<open>A value-initialised slot, and \<^verbatim>\<open>std::vector<HashTableData>(n)\<close>.\<close>

definition HashTableData0 :: HashTableData where
  "HashTableData0 = \<lparr>is_empty = True, distance = 0, iterator = 0\<rparr>"

definition vector :: "nat \<Rightarrow> HashTableData list" where
  "vector n = replicate n HashTableData0"

text \<open>\<^verbatim>\<open>data_.resize(n)\<close>: cut to \<open>n\<close> slots or fill up with value-initialised ones.\<close>

definition resize :: "HashTableData list \<Rightarrow> nat \<Rightarrow> HashTableData list" where
  "resize d n = take n d @ vector (n - length d)"

text \<open>The default constructor \<^verbatim>\<open>HashMap(Hash hasher)\<close>.\<close>

definition HashMap0 :: "('k \<Rightarrow> nat) \<Rightarrow> ('k, 'v) HashMap" where
  "HashMap0 hasher = \<lparr>hasher_f = hasher, data_f = [], size_f = 0, elemets_f = [], fresh_f = 0\<rparr>"

subsection \<open>Accessors\<close>

definition size_m :: "('k, 'v) HashMap \<Rightarrow> nat" where
  "size_m s = size_f s"

definition empty_m :: "('k, 'v) HashMap \<Rightarrow> bool" where
  "empty_m s = (size_f s = 0)"

text \<open>What a traversal from \<^verbatim>\<open>begin()\<close> to \<^verbatim>\<open>end()\<close> yields.\<close>

definition iterate :: "('k, 'v) HashMap \<Rightarrow> ('k \<times> 'v) list" where
  "iterate s = map snd (elemets_f s)"

text \<open>Dereferencing an iterator: the node with that address, if the list has one.\<close>

definition deref :: "('k, 'v) HashMap \<Rightarrow> nat \<Rightarrow> ('k \<times> 'v) option" where
  "deref s a = map_of (elemets_f s) a"

text \<open>\<^verbatim>\<open>next_\<close>: one slot forward, wrapping at the end of the vector.\<close>

definition next_m :: "('k, 'v) HashMap \<Rightarrow> nat \<Rightarrow> nat" where
  "next_m s position = (let p = position + 1 in if p = length (data_f s) then 0 else p)"

text \<open>\<^verbatim>\<open>hasher_(key) % data_.size()\<close>, which has no value for an empty vector.\<close>

definition home :: "('k, 'v) HashMap \<Rightarrow> 'k \<Rightarrow> nat option" where
  "home s key = (if length (data_f s) = 0 then None
                 else Some (hasher_f s key mod length (data_f s)))"

subsection \<open>find and at\<close>

partial_function (option) find_loop ::
  "('k, 'v) HashMap \<Rightarrow> 'k \<Rightarrow> nat \<Rightarrow> nat \<Rightarrow> list_iterator option" where
  "find_loop s key position dist =
     (if is_empty (data_f s ! position) then Some End
      else if distance (data_f s ! position) = dist then
        (case deref s (iterator (data_f s ! position)) of
           None \<Rightarrow> None
         | Some kv \<Rightarrow>
             if fst kv = key then Some (Node (iterator (data_f s ! position)))
             else find_loop s key (next_m s position) (dist + 1))
      else find_loop s key (next_m s position) (dist + 1))"

declare find_loop.simps [code]

definition find_m :: "('k, 'v) HashMap \<Rightarrow> 'k \<Rightarrow> list_iterator option" where
  "find_m s key =
     (if size_f s = 0 then Some End
      else case home s key of
             None \<Rightarrow> None
           | Some position \<Rightarrow> find_loop s key position 0)"

definition at :: "('k, 'v) HashMap \<Rightarrow> 'k \<Rightarrow> (error + 'v) option" where
  "at s key =
     (case find_m s key of
        None \<Rightarrow> None
      | Some End \<Rightarrow> Some (Inl out_of_range)
      | Some (Node a) \<Rightarrow>
          (case deref s a of None \<Rightarrow> None | Some kv \<Rightarrow> Some (Inr (snd kv))))"

subsection \<open>insert and rebuild\<close>

definition emplace_back :: "('k, 'v) HashMap \<Rightarrow> 'k \<times> 'v \<Rightarrow> ('k, 'v) HashMap" where
  "emplace_back s new_value =
     s\<lparr>elemets_f := elemets_f s @ [(fresh_f s, new_value)], fresh_f := fresh_f s + 1\<rparr>"

text \<open>The \<^verbatim>\<open>while (true)\<close> loop of \<^verbatim>\<open>insert\<close>.\<close>

partial_function (option) insert_loop ::
  "('k, 'v) HashMap \<Rightarrow> nat \<Rightarrow> nat \<Rightarrow> nat \<Rightarrow> ('k, 'v) HashMap option" where
  "insert_loop s current_elemet position dist =
     (if is_empty (data_f s ! position) then
        Some (s\<lparr>data_f := (data_f s)[position :=
                 \<lparr>is_empty = False, distance = dist, iterator = current_elemet\<rparr>]\<rparr>)
      else
        (case (deref s (iterator (data_f s ! position)), deref s current_elemet) of
           (Some kv, Some kv') \<Rightarrow>
             if fst kv = fst kv' then Some s
             else if distance (data_f s ! position) < dist then
               insert_loop
                 (s\<lparr>data_f := (data_f s)[position :=
                      (data_f s ! position)\<lparr>iterator := current_elemet, distance := dist\<rparr>]\<rparr>)
                 (iterator (data_f s ! position))
                 (next_m s position)
                 (distance (data_f s ! position) + 1)
             else insert_loop s current_elemet (next_m s position) (dist + 1)
         | _ \<Rightarrow> None))"

declare insert_loop.simps [code]

text \<open>
  \<^verbatim>\<open>insert\<close> calls \<^verbatim>\<open>rebuild_\<close>, and \<^verbatim>\<open>rebuild_\<close> calls \<^verbatim>\<open>insert\<close> for every element
  it has taken out of the list. The two are defined through the loop they share,
  \<^verbatim>\<open>for (auto &value : values) insert(value);\<close>, whose body is the body of
  \<^verbatim>\<open>insert\<close>, with the body of \<^verbatim>\<open>rebuild_\<close> in its first branch.
\<close>

partial_function (option) insert_each ::
  "('k, 'v) HashMap \<Rightarrow> ('k \<times> 'v) list \<Rightarrow> ('k, 'v) HashMap option" where
  "insert_each s values =
     (case values of
        [] \<Rightarrow> Some s
      | new_value # rest \<Rightarrow>
          Option.bind
            (let s1 = emplace_back (s\<lparr>size_f := size_f s + 1\<rparr>) new_value in
             if size_f s1 * REBUILD_CONSTANT > length (data_f s1) then
               insert_each
                 (s1\<lparr>data_f := vector (EXTENDED_CONSTANT * length (data_f s1) + EXTENDED_SHIFT),
                     size_f := 0, elemets_f := []\<rparr>)
                 (map snd (elemets_f s1))
             else
               (case home s1 (fst new_value) of
                  None \<Rightarrow> None
                | Some position \<Rightarrow> insert_loop s1 (fst (last (elemets_f s1))) position 0))
            (\<lambda>s2. insert_each s2 rest))"

declare insert_each.simps [code]

definition insert_m :: "('k, 'v) HashMap \<Rightarrow> 'k \<times> 'v \<Rightarrow> ('k, 'v) HashMap option" where
  "insert_m s new_value = insert_each s [new_value]"

definition rebuild_m :: "('k, 'v) HashMap \<Rightarrow> ('k, 'v) HashMap option" where
  "rebuild_m s = insert_each (s\<lparr>size_f := 0, elemets_f := []\<rparr>) (map snd (elemets_f s))"

subsection \<open>erase\<close>

text \<open>The inner loop of \<^verbatim>\<open>erase\<close>, which moves the following slots one step back.\<close>

partial_function (option) shift_loop ::
  "('k, 'v) HashMap \<Rightarrow> nat \<Rightarrow> nat \<Rightarrow> ('k, 'v) HashMap option" where
  "shift_loop s prev_position position =
     (if \<not> is_empty (data_f s ! position) \<and> distance (data_f s ! position) > 0 then
        (let d1 = (data_f s)[prev_position :=
                     \<lparr>is_empty = False, distance = distance (data_f s ! position) - 1,
                      iterator = iterator (data_f s ! position)\<rparr>];
             d2 = d1[position := (d1 ! position)\<lparr>is_empty := True\<rparr>]
         in shift_loop (s\<lparr>data_f := d2\<rparr>) position (next_m s position))
      else Some s)"

declare shift_loop.simps [code]

partial_function (option) erase_loop ::
  "('k, 'v) HashMap \<Rightarrow> 'k \<Rightarrow> nat \<Rightarrow> nat \<Rightarrow> ('k, 'v) HashMap option" where
  "erase_loop s key position dist =
     (if is_empty (data_f s ! position) then Some s
      else if distance (data_f s ! position) = dist then
        (case deref s (iterator (data_f s ! position)) of
           None \<Rightarrow> None
         | Some kv \<Rightarrow>
             if fst kv = key then
               shift_loop
                 (s\<lparr>size_f := size_f s - 1,
                    elemets_f := filter (\<lambda>n. fst n \<noteq> iterator (data_f s ! position)) (elemets_f s),
                    data_f := (data_f s)[position := (data_f s ! position)\<lparr>is_empty := True\<rparr>]\<rparr>)
                 position (next_m s position)
             else erase_loop s key (next_m s position) (dist + 1))
      else erase_loop s key (next_m s position) (dist + 1))"

declare erase_loop.simps [code]

definition erase :: "('k, 'v) HashMap \<Rightarrow> 'k \<Rightarrow> ('k, 'v) HashMap option" where
  "erase s key =
     (if size_f s = 0 then Some s
      else case home s key of
             None \<Rightarrow> None
           | Some position \<Rightarrow> erase_loop s key position 0)"

subsection \<open>operator[]\<close>

text \<open>
  The result is the map after the call and the address of the node whose value
  the returned reference names. \<open>ValueType0\<close> is the value \<^verbatim>\<open>ValueType()\<close>.
  Dereferencing \<^verbatim>\<open>end()\<close> has no result.
\<close>

definition index :: "'v \<Rightarrow> ('k, 'v) HashMap \<Rightarrow> 'k \<Rightarrow> (('k, 'v) HashMap \<times> nat) option" where
  "index ValueType0 s key =
     (case find_m s key of
        None \<Rightarrow> None
      | Some (Node a) \<Rightarrow> Some (s, a)
      | Some End \<Rightarrow>
          (case insert_m s (key, ValueType0) of
             None \<Rightarrow> None
           | Some s' \<Rightarrow>
               (case find_m s' key of
                  Some (Node a) \<Rightarrow> Some (s', a)
                | _ \<Rightarrow> None)))"

subsection \<open>clear\<close>

partial_function (option) clear_loop ::
  "('k, 'v) HashMap \<Rightarrow> nat \<Rightarrow> ('k, 'v) HashMap option" where
  "clear_loop s position =
     (if \<not> is_empty (data_f s ! position) then
        clear_loop (s\<lparr>data_f := (data_f s)[position := (data_f s ! position)\<lparr>is_empty := True\<rparr>]\<rparr>)
                   (next_m s position)
      else Some s)"

declare clear_loop.simps [code]

text \<open>The range-for of \<^verbatim>\<open>clear\<close> over the nodes of the list, which it does not change.\<close>

fun clear_each :: "('k, 'v) HashMap \<Rightarrow> (nat \<times> 'k \<times> 'v) list \<Rightarrow> ('k, 'v) HashMap option" where
  "clear_each s [] = Some s"
| "clear_each s (n # ns) =
     (case home s (fst (snd n)) of
        None \<Rightarrow> None
      | Some position \<Rightarrow>
          (case clear_loop s position of
             None \<Rightarrow> None
           | Some s' \<Rightarrow> clear_each s' ns))"

definition clear :: "('k, 'v) HashMap \<Rightarrow> ('k, 'v) HashMap option" where
  "clear s =
     (case clear_each s (elemets_f s) of
        None \<Rightarrow> None
      | Some s' \<Rightarrow> Some (s'\<lparr>size_f := 0, elemets_f := []\<rparr>))"

subsection \<open>reserve, the other constructors and copy assignment\<close>

definition reserve_m :: "('k, 'v) HashMap \<Rightarrow> nat \<Rightarrow> ('k, 'v) HashMap" where
  "reserve_m s n = s\<lparr>data_f := resize (data_f s) (EXTENDED_CONSTANT * n)\<rparr>"

text \<open>The constructors from a range and from an initializer list.\<close>

definition HashMap_list :: "('k \<times> 'v) list \<Rightarrow> ('k \<Rightarrow> nat) \<Rightarrow> ('k, 'v) HashMap option" where
  "HashMap_list data hasher = insert_each (reserve_m (HashMap0 hasher) (length data)) data"

text \<open>The copy constructor.\<close>

definition HashMap_copy :: "('k, 'v) HashMap \<Rightarrow> ('k, 'v) HashMap option" where
  "HashMap_copy another =
     insert_each (reserve_m (HashMap0 (hasher_f another)) (size_m another)) (iterate another)"

text \<open>
  \<^verbatim>\<open>operator=\<close> for two different objects; for \<^verbatim>\<open>this == &another\<close> the source
  returns at once.
\<close>

definition assign :: "('k, 'v) HashMap \<Rightarrow> ('k, 'v) HashMap \<Rightarrow> ('k, 'v) HashMap option" where
  "assign this another =
     insert_each (reserve_m (this\<lparr>hasher_f := hasher_f another\<rparr>) (size_m another))
                 (iterate another)"

(*DEFS-END*)

section \<open>Unfolding the loops\<close>

lemmas constant_defs = REBUILD_CONSTANT_def EXTENDED_CONSTANT_def EXTENDED_SHIFT_def

lemma insert_each_Nil: "insert_each s [] = Some s"
  by (subst insert_each.simps) simp

lemma insert_each_Cons:
  "insert_each s (new_value # rest) =
     Option.bind (insert_m s new_value) (\<lambda>s2. insert_each s2 rest)"
  unfolding insert_m_def
  by (subst insert_each.simps, subst (2) insert_each.simps)
     (simp add: insert_each_Nil Let_def)

text \<open>The body of \<^verbatim>\<open>insert\<close> and the body of \<^verbatim>\<open>rebuild_\<close>, as the source has them.\<close>

lemma insert_m_unfold:
  "insert_m s new_value =
     (let s1 = emplace_back (s\<lparr>size_f := size_f s + 1\<rparr>) new_value in
      if size_f s1 * REBUILD_CONSTANT > length (data_f s1) then
        rebuild_m (s1\<lparr>data_f := vector (EXTENDED_CONSTANT * length (data_f s1) + EXTENDED_SHIFT)\<rparr>)
      else
        (case home s1 (fst new_value) of
           None \<Rightarrow> None
         | Some position \<Rightarrow> insert_loop s1 (fst (last (elemets_f s1))) position 0))"
  unfolding insert_m_def rebuild_m_def
  by (subst insert_each.simps) (simp add: insert_each_Nil Let_def emplace_back_def)

section \<open>The default-constructed map\<close>

lemma find_default: "find_m (HashMap0 h) k = Some End"
  by (simp add: find_m_def HashMap0_def)

lemma erase_default: "erase (HashMap0 h) k = Some (HashMap0 h)"
  by (simp add: erase_def HashMap0_def)

lemma at_default: "at (HashMap0 h) k = Some (Inl out_of_range)"
  by (simp add: at_def find_default)

lemma clear_default: "clear (HashMap0 h) = Some (HashMap0 h)"
  by (simp add: clear_def HashMap0_def)

lemma insert_default:
  "insert_m (HashMap0 h) (k, v) =
     Some \<lparr>hasher_f = h,
           data_f = (vector 3)[h k mod 3 := \<lparr>is_empty = False, distance = 0, iterator = 1\<rparr>],
           size_f = 1, elemets_f = [(1, k, v)], fresh_f = 2\<rparr>"
  apply (simp add: insert_m_unfold rebuild_m_def HashMap0_def emplace_back_def constant_defs
      insert_each_Cons insert_each_Nil home_def vector_def)
  apply (subst insert_loop.simps)
  apply (simp add: HashTableData0_def)
  done

lemma insert_twice:
  "Option.bind (insert_m (HashMap0 h) (k, v1)) (\<lambda>s. insert_m s (k, v2)) =
     Some \<lparr>hasher_f = h,
           data_f = (vector 9)[h k mod 9 := \<lparr>is_empty = False, distance = 0, iterator = 3\<rparr>],
           size_f = 2, elemets_f = [(3, k, v1), (4, k, v2)], fresh_f = 5\<rparr>"
  apply (simp add: insert_default)
  apply (simp add: insert_m_unfold rebuild_m_def emplace_back_def constant_defs
      insert_each_Cons insert_each_Nil home_def vector_def)
  apply (subst insert_loop.simps)
  apply (simp add: HashTableData0_def Let_def home_def)
  apply (subst insert_loop.simps)
  apply (simp add: HashTableData0_def deref_def Let_def home_def)
  done

lemma at_after_insert_twice:
  "at \<lparr>hasher_f = h,
       data_f = (vector 9)[h k mod 9 := \<lparr>is_empty = False, distance = 0, iterator = 3\<rparr>],
       size_f = 2, elemets_f = [(3, k, v1), (4, k, v2)], fresh_f = 5\<rparr> k = Some (Inr v1)"
  apply (simp add: at_def find_m_def home_def vector_def)
  apply (subst find_loop.simps)
  apply (simp add: deref_def)
  done

section \<open>The claims\<close>

text \<open>
  C1. Claimed: after \<^verbatim>\<open>insert((k,v1))\<close> and \<^verbatim>\<open>insert((k,v2))\<close> on a
  default-constructed map, \<^verbatim>\<open>at(k) == v1\<close> and \<^verbatim>\<open>size() == 1\<close>, the duplicate
  being discarded. What the code does, for every hash function, key and values:
  both calls return, \<^verbatim>\<open>at(k)\<close> is \<open>v1\<close>, but \<^verbatim>\<open>size()\<close> is 2 and the traversal
  yields both pairs. \<^verbatim>\<open>insert\<close> counts and appends the new pair before it probes
  the table, and its return on an equal key takes neither back.
\<close>

theorem C1_duplicate_insert_is_counted:
  "(case Option.bind (insert_m (HashMap0 h) (k, v1)) (\<lambda>s. insert_m s (k, v2)) of
      None \<Rightarrow> False
    | Some s \<Rightarrow> at s k = Some (Inr v1) \<and> size_m s = 2 \<and> iterate s = [(k, v1), (k, v2)])"
  by (simp add: insert_twice at_after_insert_twice size_m_def iterate_def)

text \<open>
  C10. On a default-constructed map \<^verbatim>\<open>find\<close> returns \<^verbatim>\<open>end()\<close>, \<^verbatim>\<open>erase\<close> and
  \<^verbatim>\<open>clear\<close> return and leave the map as it is, \<^verbatim>\<open>at\<close> throws, and \<^verbatim>\<open>insert\<close>
  returns through its rebuild branch. The remainder \<^verbatim>\<open>hasher_(key) % data_.size()\<close>
  has no value on this map (\<open>home\<close> is \<open>None\<close>), and a call that evaluated it
  would have no result; each of these calls has one.
\<close>

theorem C10_default_constructed_map_is_safe:
  "home (HashMap0 h) k = None \<and>
   find_m (HashMap0 h) k = Some End \<and>
   erase (HashMap0 h) k = Some (HashMap0 h) \<and>
   at (HashMap0 h) k = Some (Inl out_of_range) \<and>
   clear (HashMap0 h) = Some (HashMap0 h) \<and>
   insert_m (HashMap0 h) (k, v) =
     Some \<lparr>hasher_f = h,
           data_f = (vector 3)[h k mod 3 := \<lparr>is_empty = False, distance = 0, iterator = 1\<rparr>],
           size_f = 1, elemets_f = [(1, k, v)], fresh_f = 2\<rparr>"
  by (simp add: find_default erase_default at_default clear_default insert_default)
     (simp add: home_def HashMap0_def)

end
